theory Spec2Isabelle
  imports Complex_Main "HOL-Library.Multiset"
begin

section \<open>Outlier Earnings Analyzer: the script \<open>app.py\<close>\<close>

text \<open>
  The script reads an uploaded CSV file into a pandas DataFrame, cleans the columns
  \<open>payout\<close> and \<open>workDate\<close>, drops the rows whose date did not parse, sorts and groups the
  rest by day, computes a total, a daily average and the total of the current pay period,
  and renders three cards and one expander per day.

  What the model fixes about the libraries the script calls:
  \<^item> a field of the CSV file is its text, or a missing value (\<open>None\<close>, pandas' NaN);
  \<^item> an amount is an exact rational number, or NaN (\<open>None\<close>); the rounding of binary
    floating point and the infinities are not modelled, and the model rejects the literals
    \<open>inf\<close> and \<open>infinity\<close>, which Python reads as infinities;
  \<^item> a timestamp is an integer count of nanoseconds since 1970-01-01, or NaT (\<open>None\<close>);
    the 64-bit range of pandas timestamps (years 1677 to 2262) is not modelled;
  \<^item> \<open>sort_values\<close> is modelled by a stable sort; the theorems on sorting and grouping
    hold for any order of the rows that have the same timestamp;
  \<^item> the markup and the formatted text of dates and amounts are not modelled: a rendered
    element carries the values it shows.
\<close>

subsection \<open>Exceptions\<close>

datatype exn = ValueError string | KeyError string | ZeroDivisionError string | OtherError string

text \<open>\<open>str e\<close> is the text that \<open>f"{e}"\<close> shows.\<close>

fun str :: "exn \<Rightarrow> string" where
  "str (ValueError m) = m"
| "str (KeyError m) = m"
| "str (ZeroDivisionError m) = m"
| "str (OtherError m) = m"

subsection \<open>Fields and amounts\<close>

type_synonym cell = "string option"

type_synonym amount = "rat option"

subsection \<open>Text\<close>

text \<open>The ASCII characters that Python's \<open>str.strip\<close> and the regular expression \<open>\s\<close>
  take for white space.\<close>

definition is_space :: "char \<Rightarrow> bool" where
  "is_space c = (c \<in> set [CHR '' '', CHR 0x09, CHR 0x0A, CHR 0x0B, CHR 0x0C, CHR 0x0D,
                            CHR 0x1C, CHR 0x1D, CHR 0x1E, CHR 0x1F])"

definition lower :: "char \<Rightarrow> char" where
  "lower c =
     (case map_of (zip ''ABCDEFGHIJKLMNOPQRSTUVWXYZ'' ''abcdefghijklmnopqrstuvwxyz'') c of
        None \<Rightarrow> c | Some l \<Rightarrow> l)"

definition digit_of :: "char \<Rightarrow> nat option" where
  "digit_of c = map_of (zip ''0123456789'' [0, 1, 2, 3, 4, 5, 6, 7, 8, 9]) c"

definition is_digit :: "char \<Rightarrow> bool" where
  "is_digit c = (digit_of c \<noteq> None)"

text \<open>The number that a run of decimal digits writes.\<close>

definition digits_value :: "nat list \<Rightarrow> nat" where
  "digits_value ds = foldl (\<lambda>a d. 10 * a + d) 0 ds"

definition strip :: "string \<Rightarrow> string" where
  "strip s = rev (dropWhile is_space (rev (dropWhile is_space s)))"

subsection \<open>Reading an amount: \<open>float(s)\<close>\<close>

text \<open>
  Python's grammar of a float literal, after white space is stripped from both ends:
  an optional sign, then \<open>nan\<close> in any case, or a decimal number
  \<open>digitpart ["." [digitpart]] [exponent]\<close> or \<open>"." digitpart [exponent]\<close>, where a
  \<open>digitpart\<close> is digits with single underscores allowed between them and an exponent is
  \<open>e\<close> or \<open>E\<close>, an optional sign and a \<open>digitpart\<close>.
\<close>

fun digitpart :: "string \<Rightarrow> nat list \<times> string" where
  "digitpart [] = ([], [])"
| "digitpart [c] = (case digit_of c of None \<Rightarrow> ([], [c]) | Some d \<Rightarrow> ([d], []))"
| "digitpart (c # u # cs) =
     (case digit_of c of
        None \<Rightarrow> ([], c # u # cs)
      | Some d \<Rightarrow>
          (if u = CHR ''_'' \<and> cs \<noteq> [] \<and> is_digit (hd cs)
           then (case digitpart cs of (ds, r) \<Rightarrow> (d # ds, r))
           else (case digitpart (u # cs) of (ds, r) \<Rightarrow> (d # ds, r))))"

definition take_sign :: "string \<Rightarrow> bool \<times> string" where
  "take_sign s =
     (case s of
        [] \<Rightarrow> (False, [])
      | c # cs \<Rightarrow> (if c = CHR ''-'' then (True, cs)
                   else if c = CHR ''+'' then (False, cs) else (False, c # cs)))"

definition exponent :: "string \<Rightarrow> int option" where
  "exponent s =
     (case take_sign s of
        (neg, r) \<Rightarrow>
          (case digitpart r of
             (ds, r') \<Rightarrow>
               (if ds = [] \<or> r' \<noteq> [] then None
                else Some (if neg then - int (digits_value ds) else int (digits_value ds)))))"

definition floatnumber :: "string \<Rightarrow> rat option" where
  "floatnumber s =
     (case digitpart s of
        (ip, r1) \<Rightarrow>
          (case (case r1 of
                   [] \<Rightarrow> ([], r1)
                 | c # cs \<Rightarrow> (if c = CHR ''.'' then digitpart cs else ([], r1))) of
             (fp, r2) \<Rightarrow>
               (if ip = [] \<and> fp = [] then None
                else
                  (let mantissa = of_nat (digits_value ip)
                                  + of_nat (digits_value fp) / 10 ^ length fp
                   in case r2 of
                        [] \<Rightarrow> Some mantissa
                      | c # cs \<Rightarrow>
                          (if c = CHR ''e'' \<or> c = CHR ''E''
                           then (case exponent cs of
                                   None \<Rightarrow> None
                                 | Some x \<Rightarrow> Some (mantissa * (10 powi x)))
                           else None)))))"

definition py_float :: "string \<Rightarrow> exn + amount" where
  "py_float s =
     (case take_sign (strip s) of
        (neg, r) \<Rightarrow>
          (if map lower r = ''nan'' then Inr None
           else (case floatnumber r of
                   None \<Rightarrow> Inl (ValueError (''could not convert string to float: '' @
                                             [CHR 0x27] @ s @ [CHR 0x27]))
                 | Some q \<Rightarrow> Inr (Some (if neg then - q else q)))))"

subsection \<open>Calendar and timestamps\<close>

type_synonym timestamp = "int option"

definition ns_per_day :: int where
  "ns_per_day = 86400000000000"

definition is_leap :: "int \<Rightarrow> bool" where
  "is_leap y = (y mod 4 = 0 \<and> (y mod 100 \<noteq> 0 \<or> y mod 400 = 0))"

definition days_before_year :: "int \<Rightarrow> int" where
  "days_before_year y = (y - 1) * 365 + (y - 1) div 4 - (y - 1) div 100 + (y - 1) div 400"

definition days_in_month :: "int \<Rightarrow> int \<Rightarrow> int" where
  "days_in_month y m =
     (if m = 2 then (if is_leap y then 29 else 28)
      else if m = 4 \<or> m = 6 \<or> m = 9 \<or> m = 11 then 30 else 31)"

definition days_before_month :: "int \<Rightarrow> int \<Rightarrow> int" where
  "days_before_month y m = sum_list (map (days_in_month y) [1 .. m - 1])"

text \<open>The proleptic Gregorian ordinal of a date: 1 is January 1 of year 1.\<close>

definition ymd2ord :: "int \<Rightarrow> int \<Rightarrow> int \<Rightarrow> int" where
  "ymd2ord y m d = days_before_year y + days_before_month y m + d"

text \<open>Midnight of a date as a timestamp; 719163 is the ordinal of 1970-01-01.\<close>

definition midnight :: "int \<Rightarrow> int \<Rightarrow> int \<Rightarrow> int" where
  "midnight y m d = (ymd2ord y m d - 719163) * ns_per_day"

text \<open>\<open>Series.dt.date\<close>: the day of a timestamp (days since 1970-01-01), its time of day
  dropped.\<close>

definition dt_date :: "int \<Rightarrow> int" where
  "dt_date t = t div ns_per_day"

text \<open>\<open>Timestamp.weekday()\<close>: Monday is 0, Sunday is 6 (1970-01-01 was a Thursday);
  on NaT the result is nan, here \<open>None\<close>.\<close>

definition weekday :: "timestamp \<Rightarrow> int option" where
  "weekday ts = (case ts of None \<Rightarrow> None | Some t \<Rightarrow> Some ((dt_date t + 3) mod 7))"

text \<open>\<open>ts - pd.Timedelta(days=k)\<close> and \<open>ts + pd.Timedelta(days=k)\<close>; NaT stays NaT.\<close>

definition minus_days :: "timestamp \<Rightarrow> int \<Rightarrow> timestamp" where
  "minus_days ts k = (case ts of None \<Rightarrow> None | Some t \<Rightarrow> Some (t - k * ns_per_day))"

definition plus_days :: "timestamp \<Rightarrow> int \<Rightarrow> timestamp" where
  "plus_days ts k = (case ts of None \<Rightarrow> None | Some t \<Rightarrow> Some (t + k * ns_per_day))"

subsection \<open>Reading a date: \<open>pd.to_datetime(..., format='%b %d, %Y', errors='coerce')\<close>\<close>

text \<open>
  The format is matched as the regular expression
  \<open>(jan|...|dec)\s+(3[0-1]|[1-2]\d|0[1-9]|[1-9]| [1-9]),\s+(\d\d\d\d)\<close>, ignoring case,
  against the whole field: a month abbreviation, white space, a day of one or two digits
  between 1 and 31, a comma, white space, a year of four digits. The date must exist.
  A field that does not match, and a missing field, become NaT.
\<close>

definition month_of :: "string \<Rightarrow> int option" where
  "month_of s =
     map_of (zip [''jan'', ''feb'', ''mar'', ''apr'', ''may'', ''jun'',
                  ''jul'', ''aug'', ''sep'', ''oct'', ''nov'', ''dec'']
                 [1, 2, 3, 4, 5, 6, 7, 8, 9, 10, 11, 12]) (map lower s)"

definition digit_run :: "string \<Rightarrow> nat list" where
  "digit_run s = map (\<lambda>c. case digit_of c of None \<Rightarrow> 0 | Some d \<Rightarrow> d) (takeWhile is_digit s)"

definition strptime :: "string \<Rightarrow> (int \<times> int \<times> int) option" where
  "strptime s =
     (case month_of (take 3 s) of
        None \<Rightarrow> None
      | Some m \<Rightarrow>
          (let r1 = drop 3 s; r2 = dropWhile is_space r1;
               dd = digit_run r2; r3 = dropWhile is_digit r2
           in if r2 = r1 \<or> dd = [] \<or> 2 < length dd \<or> digits_value dd < 1 \<or> 31 < digits_value dd
              then None
              else (case r3 of
                      [] \<Rightarrow> None
                    | c # r4 \<Rightarrow>
                        (let r5 = dropWhile is_space r4; yy = digit_run r5
                         in if c \<noteq> CHR '','' \<or> r5 = r4 \<or> length yy \<noteq> 4 \<or> length r5 \<noteq> 4
                            then None
                            else Some (int (digits_value yy), m, int (digits_value dd))))))"

definition to_datetime :: "cell \<Rightarrow> timestamp" where
  "to_datetime c =
     (case c of
        None \<Rightarrow> None
      | Some s \<Rightarrow>
          (case strptime s of
             None \<Rightarrow> None
           | Some (y, m, d) \<Rightarrow>
               (if 1 \<le> y \<and> d \<le> days_in_month y m then Some (midnight y m d) else None)))"

subsection \<open>Rows\<close>

text \<open>A row of the DataFrame once both columns are converted and the rows without a date
  are dropped: its timestamp, its amount, and its other fields as they were read.\<close>

record row =
  workDate :: int
  payout :: amount
  other :: "cell list"

text \<open>\<open>Series.sum()\<close> skips NaN.\<close>

definition series_sum :: "amount list \<Rightarrow> rat" where
  "series_sum xs = sum_list (map (\<lambda>a. case a of None \<Rightarrow> 0 | Some q \<Rightarrow> q) xs)"

text \<open>\<open>Series.max()\<close> of a datetime column: NaT when the column is empty.\<close>

fun series_max :: "int list \<Rightarrow> timestamp" where
  "series_max [] = None"
| "series_max (x # xs) = Some (fold max xs x)"

subsection \<open>The uploaded table (lines 22 to 38)\<close>

text \<open>What \<open>pd.read_csv\<close> returns: the column names and the rows of fields.\<close>

record dataframe =
  columns :: "string list"
  rows :: "cell list list"

definition required_columns :: "string list" where
  "required_columns = [''workDate'', ''payout'']"

fun col_index :: "string \<Rightarrow> string list \<Rightarrow> nat option" where
  "col_index c [] = None"
| "col_index c (x # xs) =
     (if x = c then Some 0 else (case col_index c xs of None \<Rightarrow> None | Some i \<Rightarrow> Some (Suc i)))"

text \<open>The field of a row in column \<open>i\<close>; \<open>read_csv\<close> fills a short row with missing
  values.\<close>

definition field :: "nat \<Rightarrow> cell list \<Rightarrow> cell" where
  "field i r = (if i < length r then r ! i else None)"

text \<open>\<open>df[c]\<close>: a KeyError when there is no such column.\<close>

definition column :: "dataframe \<Rightarrow> string \<Rightarrow> exn + cell list" where
  "column df c =
     (case col_index c (columns df) of
        None \<Rightarrow> Inl (KeyError ([CHR 0x27] @ c @ [CHR 0x27]))
      | Some i \<Rightarrow> Inr (map (field i) (rows df)))"

text \<open>\<open>.replace('[\$,]', '', regex=True)\<close>: every dollar sign and comma is removed from a
  text field; a missing value stays.\<close>

definition replace_regex :: "cell \<Rightarrow> cell" where
  "replace_regex c = map_option (filter (\<lambda>x. x \<noteq> CHR ''$'' \<and> x \<noteq> CHR '','')) c"

text \<open>\<open>.astype(float)\<close>: the fields are converted in order, and the first one that is not
  a number raises; a missing value is NaN.\<close>

definition cell_float :: "cell \<Rightarrow> exn + amount" where
  "cell_float c = (case c of None \<Rightarrow> Inr None | Some s \<Rightarrow> py_float s)"

fun astype_float :: "cell list \<Rightarrow> exn + amount list" where
  "astype_float [] = Inr []"
| "astype_float (c # cs) =
     (case cell_float c of
        Inl e \<Rightarrow> Inl e
      | Inr a \<Rightarrow> (case astype_float cs of Inl e \<Rightarrow> Inl e | Inr as \<Rightarrow> Inr (a # as)))"

text \<open>The fields of the columns that the script does not convert.\<close>

definition other_fields :: "string list \<Rightarrow> cell list \<Rightarrow> cell list" where
  "other_fields cols r = map snd (filter (\<lambda>(c, v). c \<notin> set required_columns) (zip cols r))"

text \<open>\<open>df.dropna(subset=['workDate'])\<close>: the rows whose date is NaT are removed.\<close>

definition dropna :: "(timestamp \<times> amount \<times> cell list) list \<Rightarrow> row list" where
  "dropna xs =
     List.map_filter
       (\<lambda>(d, a, r). case d of
                      None \<Rightarrow> None
                    | Some t \<Rightarrow> Some \<lparr>workDate = t, payout = a, other = r\<rparr>) xs"

text \<open>Lines 31 to 38: the payout column is converted first, then the date column, then the
  rows without a date are dropped.\<close>

definition load :: "dataframe \<Rightarrow> exn + row list" where
  "load df =
     (case column df ''payout'' of
        Inl e \<Rightarrow> Inl e
      | Inr pc \<Rightarrow>
          (case astype_float (map replace_regex pc) of
             Inl e \<Rightarrow> Inl e
           | Inr amounts \<Rightarrow>
               (case column df ''workDate'' of
                  Inl e \<Rightarrow> Inl e
                | Inr wc \<Rightarrow>
                    Inr (dropna (zip (map to_datetime wc)
                                  (zip amounts (map (other_fields (columns df)) (rows df))))))))"

subsection \<open>Sorting and grouping (lines 41 to 51)\<close>

text \<open>\<open>df.sort_values('workDate', ascending=False)\<close>.\<close>

fun insert_desc :: "row \<Rightarrow> row list \<Rightarrow> row list" where
  "insert_desc r [] = [r]"
| "insert_desc r (x # xs) =
     (if workDate x \<le> workDate r then r # x # xs else x # insert_desc r xs)"

definition sort_values :: "row list \<Rightarrow> row list" where
  "sort_values df = foldr insert_desc df []"

text \<open>\<open>df.groupby(df['workDate'].dt.date, sort=False)\<close>: the rows are taken in order; a row
  joins the group of its day at the end, or opens a new group after the groups there are.\<close>

fun add_row :: "int \<Rightarrow> row \<Rightarrow> (int \<times> row list) list \<Rightarrow> (int \<times> row list) list" where
  "add_row k r [] = [(k, [r])]"
| "add_row k r ((k', g) # gs) =
     (if k = k' then (k', g @ [r]) # gs else (k', g) # add_row k r gs)"

definition grouped :: "row list \<Rightarrow> (int \<times> row list) list" where
  "grouped df = foldl (\<lambda>gs r. add_row (dt_date (workDate r)) r gs) [] df"

definition total_earnings :: "row list \<Rightarrow> rat" where
  "total_earnings df = series_sum (map payout df)"

definition number_of_groups :: "row list \<Rightarrow> nat" where
  "number_of_groups df = length (grouped df)"

text \<open>Python's \<open>/\<close> raises on a zero divisor. (With a NumPy scalar as numerator it would give
  an infinity or nan instead, for which the model has no amount.)\<close>

definition truediv :: "rat \<Rightarrow> nat \<Rightarrow> exn + rat" where
  "truediv a n = (if n = 0 then Inl (ZeroDivisionError ''float division by zero'')
                  else Inr (a / of_nat n))"

definition average_earnings :: "row list \<Rightarrow> exn + rat" where
  "average_earnings df =
     (if number_of_groups df > 0 then truediv (total_earnings df) (number_of_groups df)
      else Inr 0)"

definition total_payout :: "row list \<Rightarrow> rat" where
  "total_payout grp = series_sum (map payout grp)"

subsection \<open>The pay period (lines 57 to 73)\<close>

definition most_recent_date :: "row list \<Rightarrow> timestamp" where
  "most_recent_date df = series_max (map workDate df)"

definition day_of_week :: "row list \<Rightarrow> int option" where
  "day_of_week df = weekday (most_recent_date df)"

text \<open>The test \<open>day_of_week >= 1\<close> is false on nan, so NaT takes the branch of Monday.\<close>

definition pay_period_start :: "row list \<Rightarrow> timestamp" where
  "pay_period_start df =
     (case day_of_week df of
        Some d \<Rightarrow> (if d \<ge> 1 then minus_days (most_recent_date df) (d - 1)
                   else minus_days (most_recent_date df) 6)
      | None \<Rightarrow> minus_days (most_recent_date df) 6)"

definition pay_period_end :: "row list \<Rightarrow> timestamp" where
  "pay_period_end df = plus_days (pay_period_start df) 6"

text \<open>A comparison of a column with NaT is false in every row.\<close>

definition ts_ge :: "int \<Rightarrow> timestamp \<Rightarrow> bool" where
  "ts_ge t b = (case b of None \<Rightarrow> False | Some s \<Rightarrow> t \<ge> s)"

definition ts_le :: "int \<Rightarrow> timestamp \<Rightarrow> bool" where
  "ts_le t b = (case b of None \<Rightarrow> False | Some s \<Rightarrow> t \<le> s)"

definition current_pay_period :: "row list \<Rightarrow> rat" where
  "current_pay_period df =
     series_sum (map payout
       (filter (\<lambda>r. ts_ge (workDate r) (pay_period_start df) \<and>
                     ts_le (workDate r) (pay_period_end df)) df))"

subsection \<open>Rendering (lines 85 to 133) and the script as a whole\<close>

text \<open>What Streamlit shows, in the order of the calls. A call shows its element at once:
  an exception raised later does not take an element back.\<close>

datatype element =
    Info string
  | Error string
  | Total_card rat
  | Average_card nat rat
  | Period_card int int rat
  | Separator
  | Expander int rat "row list"

text \<open>\<open>ts.strftime(...)\<close> raises on NaT; otherwise the element shows the timestamp.\<close>

definition strftime :: "timestamp \<Rightarrow> exn + int" where
  "strftime ts =
     (case ts of
        None \<Rightarrow> Inl (ValueError ''NaTType does not support strftime'')
      | Some t \<Rightarrow> Inr t)"

definition expander :: "int \<times> row list \<Rightarrow> element" where
  "expander ng = (case ng of (name, grp) \<Rightarrow> Expander name (total_payout grp) grp)"

text \<open>Lines 85 to 133: the elements shown, and the exception that stopped the rendering,
  if one did. The text of the third card is built before the card is shown.\<close>

definition render :: "row list \<Rightarrow> rat \<Rightarrow> element list \<times> exn option" where
  "render df average =
     (let shown = [Total_card (total_earnings df),
                   Average_card (number_of_groups df) average]
      in case strftime (pay_period_start df) of
           Inl e \<Rightarrow> (shown, Some e)
         | Inr s \<Rightarrow>
             (case strftime (pay_period_end df) of
                Inl e \<Rightarrow> (shown, Some e)
              | Inr e \<Rightarrow>
                  (shown @ [Period_card s e (current_pay_period df), Separator]
                     @ map expander (grouped df), None)))"

definition schema_message :: string where
  "schema_message = ''The CSV file must contain 'workDate' and 'payout' columns.''"

definition error_prefix :: string where
  "error_prefix = ''An error occurred while processing the file: ''"

text \<open>Lines 24 to 133, the body of \<open>try\<close> after \<open>read_csv\<close>.\<close>

definition script :: "dataframe \<Rightarrow> element list \<times> exn option" where
  "script raw =
     (if \<not> (\<forall>col \<in> set required_columns. col \<in> set (columns raw))
      then ([Error schema_message], None)
      else (case load raw of
              Inl e \<Rightarrow> ([], Some e)
            | Inr valid \<Rightarrow>
                (let df = sort_values valid
                 in case average_earnings df of
                      Inl e \<Rightarrow> ([], Some e)
                    | Inr average \<Rightarrow> render df average)))"

text \<open>Lines 19 to 138. The upload is absent, or it is what \<open>read_csv\<close> made of the file:
  an exception or a table. The handler adds its message to what is shown already.
  The title, the header and the upload widget are always shown and are left out.\<close>

definition app :: "(exn + dataframe) option \<Rightarrow> element list" where
  "app uploaded_file =
     (case uploaded_file of
        None \<Rightarrow> [Info ''Awaiting CSV file upload.'']
      | Some (Inl e) \<Rightarrow> [Error (error_prefix @ str e)]
      | Some (Inr raw) \<Rightarrow>
          (case script raw of
             (shown, None) \<Rightarrow> shown
           | (shown, Some e) \<Rightarrow> shown @ [Error (error_prefix @ str e)]))"

subsection \<open>The order of first appearance\<close>


subsection \<open>Sample data\<close>

text \<open>The scenario of the specification: two rows of Dec 17, 2024 and one of Dec 10, 2024,
  as an uploaded table and, in another order, as converted rows.\<close>

definition sample_table :: dataframe where
  "sample_table =
     \<lparr>columns = [''workDate'', ''payout''],
      rows = [[Some ''Dec 17, 2024'', Some ''$100.00''],
              [Some ''Dec 17, 2024'', Some ''$50.00''],
              [Some ''Dec 10, 2024'', Some ''$200.00'']]\<rparr>"

definition sample_rows :: "row list" where
  "sample_rows =
     [\<lparr>workDate = midnight 2024 12 10, payout = Some 200, other = []\<rparr>,
      \<lparr>workDate = midnight 2024 12 17, payout = Some 100, other = []\<rparr>,
      \<lparr>workDate = midnight 2024 12 17, payout = Some 50, other = []\<rparr>]"



definition undated_table :: dataframe where
  "undated_table =
     \<lparr>columns = [''workDate'', ''payout''],
      rows = [[Some ''2024-12-17'', Some ''$100.00'']]\<rparr>"

section \<open>Properties\<close>

subsection \<open>The pay period\<close>

lemma fold_max_ge: "(a::int) \<le> fold max xs a \<and> (\<forall>x\<in>set xs. x \<le> fold max xs a)"
proof (induction xs arbitrary: a)
  case Nil
  show ?case by simp
next
  case (Cons y ys)
  have "max y a \<le> fold max ys (max y a)" using Cons.IH by blast
  moreover have "\<forall>x\<in>set ys. x \<le> fold max ys (max y a)" using Cons.IH by blast
  ultimately show ?case by auto
qed

lemma fold_max_mem: "fold max xs (a::int) \<in> insert a (set xs)"
proof (induction xs arbitrary: a)
  case Nil
  show ?case by simp
next
  case (Cons y ys)
  have "fold max ys (max y a) \<in> insert (max y a) (set ys)" using Cons.IH .
  moreover have "max y a = y \<or> max y a = a" by (simp add: max_def)
  ultimately show ?case by auto
qed

lemma series_max_some:
  "xs \<noteq> [] \<Longrightarrow> \<exists>m. series_max xs = Some m \<and> m \<in> set xs \<and> (\<forall>x\<in>set xs. x \<le> m)"
proof (cases xs)
  case Nil
  assume "xs \<noteq> []"
  with Nil show ?thesis by simp
next
  case (Cons a as)
  have "fold max as a \<in> set xs" using fold_max_mem [of as a] Cons by simp
  moreover have "\<forall>x\<in>set xs. x \<le> fold max as a" using fold_max_ge [of a as] Cons by auto
  ultimately show ?thesis using Cons by simp
qed





text \<open>The two scenarios of the specification: Monday, Dec 16, 2024 gives the window from
  Dec 10 to Dec 16; Wednesday, Dec 18, 2024 gives the window from Dec 17 to Dec 23.\<close>

lemma pay_period_monday:
  "day_of_week [\<lparr>workDate = midnight 2024 12 16, payout = a, other = []\<rparr>] = Some 0 \<and>
   pay_period_start [\<lparr>workDate = midnight 2024 12 16, payout = a, other = []\<rparr>]
     = Some (midnight 2024 12 10) \<and>
   pay_period_end [\<lparr>workDate = midnight 2024 12 16, payout = a, other = []\<rparr>]
     = Some (midnight 2024 12 16)"
  by (simp add: day_of_week_def most_recent_date_def weekday_def dt_date_def
      pay_period_start_def pay_period_end_def minus_days_def plus_days_def midnight_def
      ymd2ord_def days_before_year_def days_before_month_def days_in_month_def is_leap_def
      ns_per_day_def upto.simps)

lemma pay_period_wednesday:
  "day_of_week [\<lparr>workDate = midnight 2024 12 18, payout = a, other = []\<rparr>] = Some 2 \<and>
   pay_period_start [\<lparr>workDate = midnight 2024 12 18, payout = a, other = []\<rparr>]
     = Some (midnight 2024 12 17) \<and>
   pay_period_end [\<lparr>workDate = midnight 2024 12 18, payout = a, other = []\<rparr>]
     = Some (midnight 2024 12 23)"
  by (simp add: day_of_week_def most_recent_date_def weekday_def dt_date_def
      pay_period_start_def pay_period_end_def minus_days_def plus_days_def midnight_def
      ymd2ord_def days_before_year_def days_before_month_def days_in_month_def is_leap_def
      ns_per_day_def upto.simps)

subsection \<open>The sample data, evaluated\<close>

lemma sample_eval:
  "sort_values sample_rows =
     [\<lparr>workDate = midnight 2024 12 17, payout = Some 100, other = []\<rparr>,
      \<lparr>workDate = midnight 2024 12 17, payout = Some 50, other = []\<rparr>,
      \<lparr>workDate = midnight 2024 12 10, payout = Some 200, other = []\<rparr>]"
  "number_of_groups (sort_values sample_rows) = 2"
  "total_earnings (sort_values sample_rows) = 350"
  "load sample_table = Inr (sort_values sample_rows)"
  "map fst (grouped (sort_values sample_rows)) =
     [dt_date (midnight 2024 12 17), dt_date (midnight 2024 12 10)]"
  "map (\<lambda>kg. total_payout (snd kg)) (grouped (sort_values sample_rows)) = [150, 200]"
  by code_simp+

lemma sample_script:
  "script sample_table =
     ([Total_card 350, Average_card 2 175,
       Period_card (midnight 2024 12 17) (midnight 2024 12 23) 150, Separator,
       Expander (dt_date (midnight 2024 12 17)) 150
         [\<lparr>workDate = midnight 2024 12 17, payout = Some 100, other = []\<rparr>,
          \<lparr>workDate = midnight 2024 12 17, payout = Some 50, other = []\<rparr>],
       Expander (dt_date (midnight 2024 12 10)) 200
         [\<lparr>workDate = midnight 2024 12 10, payout = Some 200, other = []\<rparr>]], None)"
  by code_simp

lemma no_groups: "grouped [] = [] \<and> number_of_groups [] = 0 \<and> total_earnings [] = 0"
  by (simp add: number_of_groups_def grouped_def total_earnings_def series_sum_def)

subsection \<open>Sorting\<close>

lemma mset_insert_desc: "mset (insert_desc r xs) = add_mset r (mset xs)"
  by (induction xs) auto

lemma mset_sort_values: "mset (sort_values df) = mset df"
  by (induction df) (auto simp: sort_values_def mset_insert_desc)




subsection \<open>Grouping\<close>


















subsection \<open>The average\<close>

lemma average_never_raises:
  "average_earnings df =
     Inr (if 0 < number_of_groups df
          then total_earnings df / of_nat (number_of_groups df) else 0)"
  by (simp add: average_earnings_def truediv_def)

lemma astype_float_error: "astype_float cs = Inl e \<Longrightarrow> \<exists>m. e = ValueError m"
proof (induction cs)
  case Nil
  then show ?case by simp
next
  case (Cons c cs)
  then show ?case
    by (auto simp: cell_float_def py_float_def
        split: sum.splits option.splits prod.splits if_splits)
qed

lemma load_error: "load raw = Inl e \<Longrightarrow> (\<exists>m. e = ValueError m) \<or> (\<exists>m. e = KeyError m)"
  by (auto simp: load_def column_def split: sum.splits option.splits dest: astype_float_error)

lemma render_error:
  "render df a = (shown, Some e) \<Longrightarrow> e = ValueError ''NaTType does not support strftime''"
  by (auto simp: render_def strftime_def Let_def split: sum.splits option.splits)

lemma script_error:
  "script raw = (shown, Some e) \<Longrightarrow> (\<exists>m. e = ValueError m) \<or> (\<exists>m. e = KeyError m)"
  by (auto simp: script_def Let_def average_never_raises split: if_splits sum.splits
      dest: load_error render_error)

text \<open>
  Claim C3. The average is the total divided by the number of groups when there is a
  group, and 0 when there is none; computing it never raises, and no run of the script
  ends in a division by zero.
\<close>

theorem average_guarded:
  "average_earnings df =
     Inr (if 0 < number_of_groups df
          then total_earnings df / of_nat (number_of_groups df) else 0)
   \<and> (\<forall>m. snd (script raw) \<noteq> Some (ZeroDivisionError m))"
proof -
  have "snd (script raw) \<noteq> Some (ZeroDivisionError m)" for m
  proof
    assume a: "snd (script raw) = Some (ZeroDivisionError m)"
    then have "script raw = (fst (script raw), Some (ZeroDivisionError m))"
      by (metis prod.collapse)
    from script_error [OF this] show False by simp
  qed
  then show ?thesis by (simp add: average_never_raises)
qed

text \<open>On the sample the average is 350 / 2; on no rows it is 0.\<close>

theorem average_guarded_witness:
  "average_earnings (sort_values sample_rows) = Inr 175 \<and> average_earnings [] = Inr 0
   \<and> snd (script sample_table) \<noteq> Some (ZeroDivisionError ''float division by zero'')"
  using average_guarded [of "sort_values sample_rows" sample_table]
    average_guarded [of "[]" sample_table]
  by (simp add: sample_eval(2,3) no_groups)

subsection \<open>Currency\<close>



subsection \<open>The required columns\<close>

lemma render_shape:
  "\<exists>rest ex. render df a = (Total_card (total_earnings df) # rest, ex)"
  by (auto simp: render_def Let_def split: sum.splits)

lemma messages_differ: "error_prefix @ m \<noteq> schema_message"
  by (simp add: error_prefix_def schema_message_def)

text \<open>
  Claim C8. For an uploaded table, what is shown is the one message about the required
  columns, and nothing else, exactly when \<open>workDate\<close> or \<open>payout\<close> is not among the column
  names; the names are compared as they are written, letter case included.
\<close>

theorem schema_error_iff:
  "app (Some (Inr raw)) = [Error schema_message]
     \<longleftrightarrow> \<not> (''workDate'' \<in> set (columns raw) \<and> ''payout'' \<in> set (columns raw))"
proof (cases "''workDate'' \<in> set (columns raw) \<and> ''payout'' \<in> set (columns raw)")
  case False
  then have "script raw = ([Error schema_message], None)"
    by (auto simp: script_def required_columns_def)
  with False show ?thesis by (simp add: app_def)
next
  case True
  then have ok: "\<forall>col\<in>set required_columns. col \<in> set (columns raw)"
    by (simp add: required_columns_def)
  have "app (Some (Inr raw)) \<noteq> [Error schema_message]"
  proof (cases "load raw")
    case (Inl e)
    then show ?thesis using ok by (simp add: app_def script_def messages_differ)
  next
    case (Inr valid)
    obtain rest ex where
      "render (sort_values valid)
         (if 0 < number_of_groups (sort_values valid)
          then total_earnings (sort_values valid) / of_nat (number_of_groups (sort_values valid))
          else 0)
       = (Total_card (total_earnings (sort_values valid)) # rest, ex)"
      using render_shape by blast
    then show ?thesis using ok Inr
      by (auto simp: app_def script_def Let_def average_never_raises split: option.splits)
  qed
  with True show ?thesis by simp
qed

text \<open>Column names that differ from the required ones in letter case only are not
  accepted; the sample table is.\<close>

theorem schema_error_iff_witness:
  "app (Some (Inr \<lparr>columns = [''WorkDate'', ''Payout''], rows = []\<rparr>)) = [Error schema_message]
   \<and> app (Some (Inr sample_table)) \<noteq> [Error schema_message]"
  using schema_error_iff [of "\<lparr>columns = [''WorkDate'', ''Payout''], rows = []\<rparr>"]
    schema_error_iff [of sample_table]
  by (simp add: sample_table_def)

subsection \<open>An amount that cannot be read\<close>








subsection \<open>Rows without a date\<close>







subsection \<open>No row with a date\<close>

lemma pay_period_some:
  assumes "df \<noteq> []"
  shows "\<exists>s. pay_period_start df = Some s \<and> pay_period_end df = Some (s + 6 * ns_per_day)"
proof -
  from assms have "map workDate df \<noteq> []" by simp
  from series_max_some [OF this] obtain m where "most_recent_date df = Some m"
    by (auto simp: most_recent_date_def)
  then show ?thesis
    by (simp add: pay_period_start_def pay_period_end_def day_of_week_def weekday_def
        minus_days_def plus_days_def)
qed

lemma sort_values_empty: "sort_values df = [] \<longleftrightarrow> df = []"
  using mset_sort_values [of df] by (metis mset_zero_iff)

text \<open>What the script shows for a table with both columns: one message when an amount
  cannot be read; the whole summary when a row has a date; and, when no row has a date,
  two cards and then the message of the exception that \<open>strftime\<close> raises on NaT.\<close>

lemma failure_before_rendering:
  assumes "\<forall>col\<in>set required_columns. col \<in> set (columns raw)" and "load raw = Inl e"
  shows "app (Some (Inr raw)) = [Error (error_prefix @ str e)]"
  using assms by (simp add: app_def script_def)

lemma full_summary_when_rows:
  assumes "\<forall>col\<in>set required_columns. col \<in> set (columns raw)"
    and "load raw = Inr valid" and "valid \<noteq> []"
  shows "\<exists>a s. app (Some (Inr raw)) =
           [Total_card (total_earnings (sort_values valid)),
            Average_card (number_of_groups (sort_values valid)) a,
            Period_card s (s + 6 * ns_per_day) (current_pay_period (sort_values valid)),
            Separator] @ map expander (grouped (sort_values valid))"
proof -
  have "sort_values valid \<noteq> []" using assms(3) by (simp add: sort_values_empty)
  from pay_period_some [OF this] obtain s where
    "pay_period_start (sort_values valid) = Some s"
    "pay_period_end (sort_values valid) = Some (s + 6 * ns_per_day)" by blast
  then show ?thesis using assms(1,2)
    by (simp add: app_def script_def Let_def average_never_raises render_def strftime_def)
qed

lemma no_valid_rows_output:
  assumes "\<forall>col\<in>set required_columns. col \<in> set (columns raw)" and "load raw = Inr []"
  shows "app (Some (Inr raw)) =
           [Total_card 0, Average_card 0 0,
            Error (error_prefix @ ''NaTType does not support strftime'')]"
proof -
  have "sort_values [] = []" by (simp add: sort_values_def)
  moreover have "pay_period_start [] = None"
    by (simp add: pay_period_start_def day_of_week_def most_recent_date_def weekday_def
        minus_days_def)
  ultimately show ?thesis using assms
    by (simp add: app_def script_def Let_def average_never_raises render_def strftime_def
        no_groups)
qed

text \<open>
  Claim C2, on the code. In \<open>undated_table\<close> no row has a readable date. The total, the
  number of groups and the average are 0 and there is no group, but the pay period is
  computed all the same, on NaT, and the rendering of its dates raises: the upload ends in
  an error message, after two of the three cards.
\<close>

theorem empty_valid_set_faults:
  "load undated_table = Inr []
   \<and> total_earnings [] = 0 \<and> number_of_groups [] = 0 \<and> average_earnings [] = Inr 0
   \<and> grouped [] = []
   \<and> most_recent_date [] = None \<and> pay_period_start [] = None \<and> pay_period_end [] = None
   \<and> app (Some (Inr undated_table)) =
       [Total_card 0, Average_card 0 0,
        Error (error_prefix @ ''NaTType does not support strftime'')]"
  by code_simp

text \<open>
  Claim C9, on the code. For a table with both columns and no row, two cards of the
  summary are shown together with an error message.
\<close>

theorem partial_summary_with_error:
  "app (Some (Inr \<lparr>columns = [''workDate'', ''payout''], rows = []\<rparr>)) =
     [Total_card 0, Average_card 0 0,
      Error (error_prefix @ ''NaTType does not support strftime'')]"
  by code_simp

end
